theory Spec2Isabelle
  imports Main "HOL-Library.Sublist"
begin

section \<open>Data model\<close>

text \<open>
  Modelled from the spec: the type declarations of package \<open>v1alpha1\<close> (the Jenkins custom
  resource) are not part of the sources at hand. The records below hold exactly the fields
  the controller reads or writes, under the names the code uses. \<open>metav1.Time\<close> is a
  clock reading in nanoseconds, \<open>time.Duration\<close> a number of nanoseconds. A Go map is an
  association list; a resource quantity is the text it is parsed from.
\<close>

type_synonym time = int
type_synonym duration = int

record SecretKeySelector =
  RefName :: string
  RefKey :: string

record SeedJob =
  ID :: string
  RepositoryURL :: string
  PrivateKey :: "SecretKeySelector option"

record ResourceRequirements =
  Requests :: "(string \<times> string) list"
  Limits :: "(string \<times> string) list"

record JenkinsMaster =
  Image :: string
  OperatorPlugins :: "(string \<times> string list) list"
  Plugins :: "(string \<times> string list) list"
  Resources :: ResourceRequirements

record JenkinsSpec =
  Master :: JenkinsMaster
  SeedJobs :: "SeedJob list"

record JenkinsStatus =
  BaseConfigurationCompletedTime :: "time option"
  UserConfigurationCompletedTime :: "time option"
  ProvisionStartTime :: time

record Jenkins =
  Namespace :: string
  Name :: string
  Spec :: JenkinsSpec
  Status :: JenkinsStatus

text \<open>\<open>reconcile.Request\<close>: the namespaced name of the object to reconcile.\<close>

record Request =
  ReqNamespace :: string
  ReqName :: string

text \<open>\<open>reconcile.Result\<close>; the zero value is \<open>Result{}\<close>.\<close>

record Result =
  Requeue :: bool
  RequeueAfter :: duration

definition Result_zero :: Result where
  "Result_zero = \<lparr>Requeue = False, RequeueAfter = 0\<rparr>"

definition Second :: duration where
  "Second = 1000000000"

text \<open>
  \<open>Time.Sub\<close>: the difference of two clock readings as a \<open>time.Duration\<close>, an int64;
  a difference out of its range is replaced by the nearest bound.
\<close>

definition minDuration :: duration where
  "minDuration = - 9223372036854775808"

definition maxDuration :: duration where
  "maxDuration = 9223372036854775807"

definition time_Sub :: "time \<Rightarrow> time \<Rightarrow> duration" where
  "time_Sub t u =
     (if t - u < minDuration then minDuration
      else if maxDuration < t - u then maxDuration
      else t - u)"

text \<open>
  Go errors. The two sentinels of package \<open>jobs\<close> are compared by identity in the code, so
  they are constructors of their own; \<open>WithStack\<close> is the wrapper of \<open>pkg/errors\<close>.
\<close>

datatype error =
    ErrorBuildFailed
  | ErrorUnrecoverableBuildFailed
  | Failure string
  | WithStack error

text \<open>\<open>errors.WithStack\<close> maps nil to nil.\<close>

definition WithStack_opt :: "error option \<Rightarrow> error option" where
  "WithStack_opt e = map_option WithStack e"

record Plugin =
  PluginName :: string
  PluginVersion :: string

text \<open>\<open>rsa.PrivateKey\<close>: modulus, public exponent, private exponent, prime factors.\<close>

datatype rsa_PrivateKey = RSAPrivateKey int int int "int list"

subsection \<open>What a reconcile pass does to the outside\<close>

datatype level = VInfo | VWarn | VDebug

datatype arg = ArgS string | ArgE error | ArgD duration

datatype logmsg =
    Str string
  | ErrorText error
  | Sprintf string "arg list"

datatype eventType = TypeNormal | TypeWarning

datatype phase = Fetch | Default | ValidateBase | ProvisionBase | ValidateUser | ProvisionUser

text \<open>
  The trace of a pass lists, in program order, the calls that leave the controller: reads
  and writes through the Kubernetes client, calls of the provisioners, notifications and
  log lines. \<open>Enter p\<close> marks the point where \<open>reconcile\<close> calls the operation of phase
  \<open>p\<close>. \<open>ClientUpdate\<close> carries the object written and the outcome of the write; the
  call of a provisioner or runner carries the object it is handed.
\<close>

datatype action =
    Enter phase
  | ClientGet Request
  | ClientUpdate Jenkins "error option"
  | SecretGet string string
  | ConfigMapGet string string
  | CallBaseReconcile Jenkins
  | CallEnsureSeedJobs Jenkins
  | CallConfigureGroovyJob
  | CallEnsureGroovyJob "(string \<times> string) list" Jenkins
  | Emit eventType string string
  | Log level logmsg

subsection \<open>Collaborators\<close>

text \<open>
  Everything the controller calls but does not define in these sources is a field of the
  environment: the Kubernetes client, the predicates of \<open>apierrors\<close>, the constants and
  helpers of packages \<open>constants\<close>, \<open>plugins\<close>, \<open>resources\<close>, the regular expressions
  of the docker reference grammar, the base provisioner, the seed-job and groovy runners,
  the PEM and PKCS#1 decoders, the clock and the debug flag of package \<open>log\<close>.
  A collaborator that is handed the pointer to the Jenkins object may change it, so it
  returns the object as it leaves it.
\<close>

record env =
  client_Get :: "Request \<Rightarrow> error + Jenkins"
  client_Update :: "Jenkins \<Rightarrow> error option"
  secret_Get :: "string \<Rightarrow> string \<Rightarrow> error + (string \<times> string) list"
  configMap_Get :: "string \<Rightarrow> string \<Rightarrow> error + (string \<times> string) list"
  IsNotFound :: "error \<Rightarrow> bool"
  IsConflict :: "error \<Rightarrow> bool"
  DefaultJenkinsMasterImage :: string
  BasePlugins :: "(string \<times> string list) list"
  plugins_New :: "string \<Rightarrow> error + Plugin"
  VerifyDependencies :: "(Plugin \<times> Plugin list) list \<Rightarrow> bool"
  dockerImageRegexp_MatchString :: "string \<Rightarrow> bool"
  ReferenceRegexp_MatchString :: "string \<Rightarrow> bool"
  base_Reconcile :: "Jenkins \<Rightarrow> Jenkins \<times> Result \<times> error option"
  EnsureSeedJobs :: "Jenkins \<Rightarrow> Jenkins \<times> bool \<times> error option"
  ConfigureGroovyJob :: "error option"
  GetUserConfigurationConfigMapName :: "Jenkins \<Rightarrow> string"
  EnsureGroovyJob :: "(string \<times> string) list \<Rightarrow> Jenkins \<Rightarrow> Jenkins \<times> bool \<times> error option"
  pem_Decode :: "string \<Rightarrow> string option"
  ParsePKCS1PrivateKey :: "string \<Rightarrow> error + rsa_PrivateKey"
  rsa_Validate :: "rsa_PrivateKey \<Rightarrow> error option"
  Now_base :: time
  Now_user :: time
  log_Debug :: bool

section \<open>jenkins\_controller.go: constants and defaulting\<close>

definition reasonBaseConfigurationSuccess :: string where
  "reasonBaseConfigurationSuccess = ''BaseConfigurationSuccess''"

definition reasonUserConfigurationSuccess :: string where
  "reasonUserConfigurationSuccess = ''BaseConfigurationFailure''"

definition reasonCRValidationFailure :: string where
  "reasonCRValidationFailure = ''CRValidationFailure''"

definition ResourceCPU :: string where
  "ResourceCPU = ''cpu''"

definition ResourceMemory :: string where
  "ResourceMemory = ''memory''"

definition set_Image :: "string \<Rightarrow> Jenkins \<Rightarrow> Jenkins" where
  "set_Image v j = j\<lparr>Spec := (Spec j)\<lparr>Master := (Master (Spec j))\<lparr>Image := v\<rparr>\<rparr>\<rparr>"

definition set_OperatorPlugins :: "(string \<times> string list) list \<Rightarrow> Jenkins \<Rightarrow> Jenkins" where
  "set_OperatorPlugins v j =
     j\<lparr>Spec := (Spec j)\<lparr>Master := (Master (Spec j))\<lparr>OperatorPlugins := v\<rparr>\<rparr>\<rparr>"

definition set_Plugins :: "(string \<times> string list) list \<Rightarrow> Jenkins \<Rightarrow> Jenkins" where
  "set_Plugins v j = j\<lparr>Spec := (Spec j)\<lparr>Master := (Master (Spec j))\<lparr>Plugins := v\<rparr>\<rparr>\<rparr>"

definition set_Resources :: "ResourceRequirements \<Rightarrow> Jenkins \<Rightarrow> Jenkins" where
  "set_Resources v j = j\<lparr>Spec := (Spec j)\<lparr>Master := (Master (Spec j))\<lparr>Resources := v\<rparr>\<rparr>\<rparr>"

definition defaultResources :: ResourceRequirements where
  "defaultResources =
     \<lparr>Requests = [(ResourceCPU, ''1''), (ResourceMemory, ''500Mi'')],
      Limits = [(ResourceCPU, ''1500m''), (ResourceMemory, ''3Gi'')]\<rparr>"

text \<open>
  \<open>setDefaults\<close>: the four tests run in the order of the source, each on the object as the
  earlier ones left it; the object is written back only if one of them fired, and the
  error of that write is returned wrapped.
\<close>

definition setDefaults :: "env \<Rightarrow> Jenkins \<Rightarrow> (Jenkins \<times> error option) \<times> action list" where
  "setDefaults env jenkins =
     (let c1 = (length (Image (Master (Spec jenkins))) = 0);
          j1 = (if c1 then set_Image (DefaultJenkinsMasterImage env) jenkins else jenkins);
          c2 = (length (OperatorPlugins (Master (Spec j1))) = 0);
          j2 = (if c2 then set_OperatorPlugins (BasePlugins env) j1 else j1);
          c3 = (length (Plugins (Master (Spec j2))) = 0);
          j3 = (if c3 then set_Plugins [(''simple-theme-plugin:0.5.1'', [])] j2 else j2);
          requestCPUSet = (map_of (Requests (Resources (Master (Spec j3)))) ResourceCPU \<noteq> None);
          requestMemorySet =
            (map_of (Requests (Resources (Master (Spec j3)))) ResourceMemory \<noteq> None);
          limitCPUSet = (map_of (Limits (Resources (Master (Spec j3)))) ResourceCPU \<noteq> None);
          limitMemorySet = (map_of (Limits (Resources (Master (Spec j3)))) ResourceMemory \<noteq> None);
          c4 = (\<not> limitCPUSet \<or> \<not> limitMemorySet \<or> \<not> requestCPUSet \<or> \<not> requestMemorySet);
          j4 = (if c4 then set_Resources defaultResources j3 else j3);
          logs =
            (if c1 then [Log VInfo (Str (''Setting default Jenkins master image: '' @
                                         DefaultJenkinsMasterImage env))] else []) @
            (if c2 then [Log VInfo (Str ''Setting default base plugins'')] else []) @
            (if c4 then [Log VInfo (Str ''Setting default Jenkins master pod resource requirements'')]
             else [])
      in if c1 \<or> c2 \<or> c3 \<or> c4
         then ((j4, WithStack_opt (client_Update env j4)),
               logs @ [ClientUpdate j4 (client_Update env j4)])
         else ((j4, None), logs))"

section \<open>configuration/base/validate.go\<close>

text \<open>The inner loop of \<open>validatePlugins\<close>, over the dependent names of one root.\<close>

fun validatePlugins_dependents ::
  "env \<Rightarrow> string \<Rightarrow> string list \<Rightarrow> bool \<times> Plugin list \<times> action list
     \<Rightarrow> bool \<times> Plugin list \<times> action list" where
  "validatePlugins_dependents env rootPluginName [] acc = acc"
| "validatePlugins_dependents env rootPluginName (pluginName # rest) (valid, dependentPlugins, tr) =
     (case plugins_New env pluginName of
        Inl err \<Rightarrow>
          validatePlugins_dependents env rootPluginName rest
            (False, dependentPlugins,
             tr @ [Log VWarn (Sprintf (''Invalid dependent plugin name '%s' in root plugin '%s'' @ [CHR 0x27])
                     [ArgS pluginName, ArgS rootPluginName])])
      | Inr p \<Rightarrow>
          validatePlugins_dependents env rootPluginName rest (valid, dependentPlugins @ [p], tr))"

text \<open>
  The loop over the entries of one map. Go leaves the order of a map's entries open; the
  model takes them in the order of the association list. \<open>allPlugins\<close> is a map keyed by
  the parsed root, so a later entry with the same key replaces the earlier one.
\<close>

definition allPlugins_put ::
  "Plugin \<Rightarrow> Plugin list \<Rightarrow> (Plugin \<times> Plugin list) list \<Rightarrow> (Plugin \<times> Plugin list) list" where
  "allPlugins_put k v m = filter (\<lambda>kv. fst kv \<noteq> k) m @ [(k, v)]"

fun validatePlugins_roots ::
  "env \<Rightarrow> (string \<times> string list) list \<Rightarrow> bool \<times> (Plugin \<times> Plugin list) list \<times> action list
     \<Rightarrow> bool \<times> (Plugin \<times> Plugin list) list \<times> action list" where
  "validatePlugins_roots env [] acc = acc"
| "validatePlugins_roots env ((rootPluginName, dependentPluginNames) # rest) (valid, allPlugins, tr) =
     (let rootPlugin = plugins_New env rootPluginName;
          (valid1, tr1) =
            (case rootPlugin of
               Inl err \<Rightarrow> (False, tr @ [Log VWarn (Sprintf (''Invalid root plugin name '%s'' @ [CHR 0x27])
                                                      [ArgS rootPluginName])])
             | Inr p \<Rightarrow> (valid, tr));
          (valid2, dependentPlugins, tr2) =
            validatePlugins_dependents env rootPluginName dependentPluginNames (valid1, [], tr1);
          allPlugins2 =
            (case rootPlugin of
               Inl err \<Rightarrow> allPlugins
             | Inr p \<Rightarrow> allPlugins_put p dependentPlugins allPlugins)
      in validatePlugins_roots env rest (valid2, allPlugins2, tr2))"

fun validatePlugins_maps ::
  "env \<Rightarrow> (string \<times> string list) list list \<Rightarrow> bool \<times> (Plugin \<times> Plugin list) list \<times> action list
     \<Rightarrow> bool \<times> (Plugin \<times> Plugin list) list \<times> action list" where
  "validatePlugins_maps env [] acc = acc"
| "validatePlugins_maps env (pluginsWithVersions # rest) acc =
     validatePlugins_maps env rest (validatePlugins_roots env pluginsWithVersions acc)"

definition validatePlugins :: "env \<Rightarrow> (string \<times> string list) list list \<Rightarrow> bool \<times> action list" where
  "validatePlugins env pluginsWithVersionSlice =
     (case validatePlugins_maps env pluginsWithVersionSlice (True, [], []) of
        (valid, allPlugins, tr) \<Rightarrow>
          if valid then (VerifyDependencies env allPlugins, tr) else (valid, tr))"

definition base_Validate :: "env \<Rightarrow> Jenkins \<Rightarrow> (bool \<times> error option) \<times> action list" where
  "base_Validate env jenkins =
     (if Image (Master (Spec jenkins)) = ''''
      then ((False, None), [Log VWarn (Str ''Image not set'')])
      else if \<not> dockerImageRegexp_MatchString env (Image (Master (Spec jenkins))) \<and>
              \<not> ReferenceRegexp_MatchString env (Image (Master (Spec jenkins)))
      then ((False, None), [Log VWarn (Str ''Invalid image'')])
      else (case validatePlugins env
                   [OperatorPlugins (Master (Spec jenkins)), Plugins (Master (Spec jenkins))] of
              (ok, tr) \<Rightarrow> if \<not> ok then ((False, None), tr) else ((True, None), tr)))"

section \<open>configuration/user/validate.go\<close>

text \<open>\<open>strings.Contains\<close>.\<close>

fun Contains :: "string \<Rightarrow> string \<Rightarrow> bool" where
  "Contains [] substr = (substr = [])"
| "Contains (c # s) substr = (prefix substr (c # s) \<or> Contains s substr)"

definition validatePrivateKey :: "env \<Rightarrow> string \<Rightarrow> error option" where
  "validatePrivateKey env privateKey =
     (case pem_Decode env privateKey of
        None \<Rightarrow> Some (Failure ''failed to decode PEM block'')
      | Some block \<Rightarrow>
          (case ParsePKCS1PrivateKey env block of
             Inl err \<Rightarrow> Some (WithStack err)
           | Inr priv \<Rightarrow>
               (case rsa_Validate env priv of
                  Some err \<Rightarrow> Some (WithStack err)
                | None \<Rightarrow> None)))"

text \<open>
  The part of the loop body that follows the secret lookup: the key's value is read from
  the secret's data (a missing key reads as the empty text), tested for emptiness and
  validated.
\<close>

definition validateSeedJob_key ::
  "env \<Rightarrow> SecretKeySelector \<Rightarrow> (string \<times> string) list \<Rightarrow> bool \<Rightarrow> bool \<times> action list" where
  "validateSeedJob_key env ref secretData valid =
     (let privateKey = (case map_of secretData (RefKey ref) of None \<Rightarrow> '''' | Some v \<Rightarrow> v);
          valid1 = (if privateKey = '''' then False else valid);
          tr1 = (if privateKey = '''' then [Log VWarn (Str ''private key is empty'')] else [])
      in case validatePrivateKey env privateKey of
           Some err \<Rightarrow> (False, tr1 @ [Log VWarn (Sprintf ''private key is invalid: %s'' [ArgE err])])
         | None \<Rightarrow> (valid1, tr1))"

text \<open>
  One round of the loop of \<open>validateSeedJobs\<close>, on the declaration \<open>seedJob\<close> with the
  verdict so far. \<open>Inl\<close> is the early return with an error, \<open>Inr\<close> the verdict after
  the round.
\<close>

definition validateSeedJob ::
  "env \<Rightarrow> string \<Rightarrow> SeedJob \<Rightarrow> bool \<Rightarrow> (error + bool) \<times> action list" where
  "validateSeedJob env namespace seedJob valid =
     (let c1 = (length (ID seedJob) = 0);
          valid1 = (if c1 then False else valid);
          tr1 = (if c1 then [Log VWarn (Str ''seed job id can't be empty'')] else []);
          c2 = (Contains (RepositoryURL seedJob) ''git@'' \<and> PrivateKey seedJob = None);
          valid2 = (if c2 then False else valid1);
          tr2 = tr1 @ (if c2
                       then [Log VWarn (Str ''private key can't be empty while using ssh repository url'')]
                       else [])
      in case PrivateKey seedJob of
           None \<Rightarrow> (Inr valid2, tr2)
         | Some ref \<Rightarrow>
             (case secret_Get env namespace (RefName ref) of
                Inl err \<Rightarrow>
                  if IsNotFound env err
                  then (case validateSeedJob_key env ref [] False of
                          (v, tr3) \<Rightarrow>
                            (Inr v, tr2 @ [SecretGet namespace (RefName ref),
                                           Log VWarn (Str ''secret not found'')] @ tr3))
                  else (Inl (WithStack err), tr2 @ [SecretGet namespace (RefName ref)])
              | Inr secretData \<Rightarrow>
                  (case validateSeedJob_key env ref secretData valid2 of
                     (v, tr3) \<Rightarrow> (Inr v, tr2 @ [SecretGet namespace (RefName ref)] @ tr3))))"

fun validateSeedJobs_loop ::
  "env \<Rightarrow> string \<Rightarrow> SeedJob list \<Rightarrow> bool \<Rightarrow> (bool \<times> error option) \<times> action list" where
  "validateSeedJobs_loop env namespace [] valid = ((valid, None), [])"
| "validateSeedJobs_loop env namespace (seedJob # rest) valid =
     (case validateSeedJob env namespace seedJob valid of
        (Inl err, tr) \<Rightarrow> ((False, Some err), tr)
      | (Inr valid', tr) \<Rightarrow>
          (case validateSeedJobs_loop env namespace rest valid' of
             (r, tr') \<Rightarrow> (r, tr @ tr')))"

definition validateSeedJobs :: "env \<Rightarrow> Jenkins \<Rightarrow> (bool \<times> error option) \<times> action list" where
  "validateSeedJobs env jenkins =
     validateSeedJobs_loop env (Namespace jenkins) (SeedJobs (Spec jenkins)) True"

definition user_Validate :: "env \<Rightarrow> Jenkins \<Rightarrow> (bool \<times> error option) \<times> action list" where
  "user_Validate env jenkins =
     (case validateSeedJobs env jenkins of
        ((valid, err), tr) \<Rightarrow>
          if \<not> valid \<or> err \<noteq> None then ((valid, err), tr) else ((True, None), tr))"

section \<open>configuration/user/reconcile.go\<close>

definition requeueAfter10s :: Result where
  "requeueAfter10s = \<lparr>Requeue = True, RequeueAfter = Second * 10\<rparr>"

definition ensureSeedJobs :: "env \<Rightarrow> Jenkins \<Rightarrow> (Jenkins \<times> Result \<times> error option) \<times> action list" where
  "ensureSeedJobs env jenkins =
     (case EnsureSeedJobs env jenkins of
        (jenkins', done, err) \<Rightarrow>
          ((jenkins',
            (case err of
               Some e \<Rightarrow>
                 if e = ErrorBuildFailed then (requeueAfter10s, None)
                 else if e = ErrorUnrecoverableBuildFailed then (Result_zero, None)
                 else (Result_zero, Some (WithStack e))
             | None \<Rightarrow>
                 if \<not> done then (requeueAfter10s, None) else (Result_zero, None))),
           [CallEnsureSeedJobs jenkins]))"

definition ensureUserConfiguration ::
  "env \<Rightarrow> Jenkins \<Rightarrow> (Jenkins \<times> Result \<times> error option) \<times> action list" where
  "ensureUserConfiguration env jenkins =
     (case ConfigureGroovyJob env of
        Some err \<Rightarrow> ((jenkins, Result_zero, Some err), [CallConfigureGroovyJob])
      | None \<Rightarrow>
          (let namespace = Namespace jenkins;
               name = GetUserConfigurationConfigMapName env jenkins
           in case configMap_Get env namespace name of
                Inl err \<Rightarrow>
                  ((jenkins, Result_zero, Some (WithStack err)),
                   [CallConfigureGroovyJob, ConfigMapGet namespace name])
              | Inr configurationData \<Rightarrow>
                  (case EnsureGroovyJob env configurationData jenkins of
                     (jenkins', done, err) \<Rightarrow>
                       ((jenkins',
                         (case err of
                            Some e \<Rightarrow> (Result_zero, Some e)
                          | None \<Rightarrow>
                              if \<not> done then (requeueAfter10s, None) else (Result_zero, None))),
                        [CallConfigureGroovyJob, ConfigMapGet namespace name,
                         CallEnsureGroovyJob configurationData jenkins]))))"

definition user_Reconcile :: "env \<Rightarrow> Jenkins \<Rightarrow> (Jenkins \<times> Result \<times> error option) \<times> action list" where
  "user_Reconcile env jenkins =
     (case ensureSeedJobs env jenkins of
        ((j1, result, err), tr1) \<Rightarrow>
          (case err of
             Some e \<Rightarrow> ((j1, Result_zero, Some e), tr1)
           | None \<Rightarrow>
               if Requeue result then ((j1, result, None), tr1)
               else (case ensureUserConfiguration env j1 of
                       ((j2, result2, err2), tr2) \<Rightarrow>
                         (case err2 of
                            Some e \<Rightarrow> ((j2, Result_zero, Some e), tr1 @ tr2)
                          | None \<Rightarrow>
                              if Requeue result2 then ((j2, result2, None), tr1 @ tr2)
                              else ((j2, Result_zero, None), tr1 @ tr2)))))"

section \<open>jenkins\_controller.go: the reconcile pass\<close>

text \<open>
  \<open>reconcile\<close> is one long function; the model cuts it at the two comments of the source
  that open the base and the user configuration, and names the two blocks that stamp a
  completion time.

  Lines 164 to 174: the base completion time is stamped if it is nil, the object is
  written, and only after a successful write the log line and the notification follow.
\<close>

definition set_BaseConfigurationCompletedTime :: "time \<Rightarrow> Jenkins \<Rightarrow> Jenkins" where
  "set_BaseConfigurationCompletedTime now j =
     j\<lparr>Status := (Status j)\<lparr>BaseConfigurationCompletedTime := Some now\<rparr>\<rparr>"

definition set_UserConfigurationCompletedTime :: "time \<Rightarrow> Jenkins \<Rightarrow> Jenkins" where
  "set_UserConfigurationCompletedTime now j =
     j\<lparr>Status := (Status j)\<lparr>UserConfigurationCompletedTime := Some now\<rparr>\<rparr>"

definition reconcile_baseCompleted :: "env \<Rightarrow> Jenkins \<Rightarrow> (Jenkins \<times> error option) \<times> action list" where
  "reconcile_baseCompleted env jenkins =
     (if BaseConfigurationCompletedTime (Status jenkins) = None
      then (let now = Now_base env;
                j = set_BaseConfigurationCompletedTime now jenkins
            in case client_Update env j of
                 Some err \<Rightarrow> ((j, Some (WithStack err)), [ClientUpdate j (Some err)])
               | None \<Rightarrow>
                   ((j, None),
                    [ClientUpdate j None,
                     Log VInfo (Sprintf ''Base configuration phase is complete, took %s''
                                  [ArgD (time_Sub now (ProvisionStartTime (Status j)))]),
                     Emit TypeNormal reasonBaseConfigurationSuccess ''Base configuration completed'']))
      else ((jenkins, None), []))"

text \<open>Lines 196 to 206: the same for the user completion time.\<close>

definition reconcile_userCompleted :: "env \<Rightarrow> Jenkins \<Rightarrow> (Jenkins \<times> error option) \<times> action list" where
  "reconcile_userCompleted env jenkins =
     (if UserConfigurationCompletedTime (Status jenkins) = None
      then (let now = Now_user env;
                j = set_UserConfigurationCompletedTime now jenkins
            in case client_Update env j of
                 Some err \<Rightarrow> ((j, Some (WithStack err)), [ClientUpdate j (Some err)])
               | None \<Rightarrow>
                   ((j, None),
                    [ClientUpdate j None,
                     Log VInfo (Sprintf ''User configuration phase is complete, took %s''
                                  [ArgD (time_Sub now (ProvisionStartTime (Status j)))]),
                     Emit TypeNormal reasonUserConfigurationSuccess ''User configuration completed'']))
      else ((jenkins, None), []))"

text \<open>Lines 175 to 208: user validation, user reconcile, user completion.\<close>

definition reconcile_userConfiguration :: "env \<Rightarrow> Jenkins \<Rightarrow> (Result \<times> error option) \<times> action list" where
  "reconcile_userConfiguration env jenkins =
     (case user_Validate env jenkins of
        ((valid, verr), tr1) \<Rightarrow>
          (case verr of
             Some e \<Rightarrow> ((Result_zero, Some e), Enter ValidateUser # tr1)
           | None \<Rightarrow>
               if \<not> valid
               then ((Result_zero, None),
                     Enter ValidateUser # tr1 @
                     [Log VWarn (Str ''Validation of user configuration failed, please correct Jenkins CR''),
                      Emit TypeWarning reasonCRValidationFailure ''User CR validation failed''])
               else (case user_Reconcile env jenkins of
                       ((j1, result, err), tr2) \<Rightarrow>
                         (case err of
                            Some e \<Rightarrow>
                              ((Result_zero, Some e),
                               Enter ValidateUser # tr1 @ Enter ProvisionUser # tr2)
                          | None \<Rightarrow>
                              if Requeue result
                              then ((result, None),
                                    Enter ValidateUser # tr1 @ Enter ProvisionUser # tr2)
                              else (case reconcile_userCompleted env j1 of
                                      ((j2, uerr), tr3) \<Rightarrow>
                                        ((Result_zero, uerr),
                                         Enter ValidateUser # tr1 @ Enter ProvisionUser # tr2 @ tr3))))))"

text \<open>Lines 143 to 174, followed by the user configuration.\<close>

definition reconcile_baseConfiguration :: "env \<Rightarrow> Jenkins \<Rightarrow> (Result \<times> error option) \<times> action list" where
  "reconcile_baseConfiguration env jenkins =
     (case base_Validate env jenkins of
        ((valid, verr), tr1) \<Rightarrow>
          (case verr of
             Some e \<Rightarrow> ((Result_zero, Some e), Enter ValidateBase # tr1)
           | None \<Rightarrow>
               if \<not> valid
               then ((Result_zero, None),
                     Enter ValidateBase # tr1 @
                     [Emit TypeWarning reasonCRValidationFailure ''Base CR validation failed'',
                      Log VWarn (Str ''Validation of base configuration failed, please correct Jenkins CR'')])
               else (case base_Reconcile env jenkins of
                       (j1, result, err) \<Rightarrow>
                         (case err of
                            Some e \<Rightarrow>
                              ((Result_zero, Some e),
                               Enter ValidateBase # tr1 @ [Enter ProvisionBase, CallBaseReconcile jenkins])
                          | None \<Rightarrow>
                              if Requeue result
                              then ((result, None),
                                    Enter ValidateBase # tr1 @ [Enter ProvisionBase, CallBaseReconcile jenkins])
                              else (case reconcile_baseCompleted env j1 of
                                      ((j2, berr), tr3) \<Rightarrow>
                                        (case berr of
                                           Some e \<Rightarrow>
                                             ((Result_zero, Some e),
                                              Enter ValidateBase # tr1 @
                                              [Enter ProvisionBase, CallBaseReconcile jenkins] @ tr3)
                                         | None \<Rightarrow>
                                             (case reconcile_userConfiguration env j2 of
                                                (r, tr4) \<Rightarrow>
                                                  (r, Enter ValidateBase # tr1 @
                                                      [Enter ProvisionBase, CallBaseReconcile jenkins] @
                                                      tr3 @ tr4))))))))"

text \<open>Lines 123 to 141: fetch and defaulting, followed by the base configuration.\<close>

definition reconcile :: "env \<Rightarrow> Request \<Rightarrow> (Result \<times> error option) \<times> action list" where
  "reconcile env request =
     (case client_Get env request of
        Inl err \<Rightarrow>
          if IsNotFound env err
          then ((Result_zero, None), [Enter Fetch, ClientGet request])
          else ((Result_zero, Some (WithStack err)), [Enter Fetch, ClientGet request])
      | Inr jenkins \<Rightarrow>
          (case setDefaults env jenkins of
             ((j1, derr), tr1) \<Rightarrow>
               (case derr of
                  Some e \<Rightarrow>
                    ((Result_zero, Some e), [Enter Fetch, ClientGet request, Enter Default] @ tr1)
                | None \<Rightarrow>
                    (case reconcile_baseConfiguration env j1 of
                       (r, tr2) \<Rightarrow>
                         (r, [Enter Fetch, ClientGet request, Enter Default] @ tr1 @ tr2)))))"

text \<open>
  \<open>Reconcile\<close>, the entry point: every error of the pass becomes an immediate requeue with
  a nil error; a conflict is logged by its text, any other error as a failed loop.
\<close>

definition Reconcile :: "env \<Rightarrow> Request \<Rightarrow> (Result \<times> error option) \<times> action list" where
  "Reconcile env request =
     (case reconcile env request of
        ((result, err), tr) \<Rightarrow>
          (case err of
             Some e \<Rightarrow>
               if IsConflict env e
               then ((\<lparr>Requeue = True, RequeueAfter = 0\<rparr>, None),
                     Log VDebug (Str ''Reconciling Jenkins'') # tr @ [Log VWarn (ErrorText e)])
               else ((\<lparr>Requeue = True, RequeueAfter = 0\<rparr>, None),
                     Log VDebug (Str ''Reconciling Jenkins'') # tr @
                     [Log VWarn (Sprintf (if log_Debug env then ''Reconcile loop failed: %+v''
                                          else ''Reconcile loop failed: %s'') [ArgE e])])
           | None \<Rightarrow> ((result, None), Log VDebug (Str ''Reconciling Jenkins'') # tr)))"

subsection \<open>Reading a trace\<close>

text \<open>The phases a pass entered, in order.\<close>

fun phases :: "action list \<Rightarrow> phase list" where
  "phases [] = []"
| "phases (Enter p # tr) = p # phases tr"
| "phases (a # tr) = phases tr"

text \<open>The notifications a pass emitted, in order, as (type, reason, message).\<close>

fun events :: "action list \<Rightarrow> (eventType \<times> string \<times> string) list" where
  "events [] = []"
| "events (Emit ty reason msg # tr) = (ty, reason, msg) # events tr"
| "events (a # tr) = events tr"

text \<open>The log lines of a pass, in order.\<close>

fun logs :: "action list \<Rightarrow> (level \<times> logmsg) list" where
  "logs [] = []"
| "logs (Log l m # tr) = (l, m) # logs tr"
| "logs (a # tr) = logs tr"

text \<open>
  The object the API server holds after the writes of a trace: only a successful update
  replaces it.
\<close>

fun persisted :: "action list \<Rightarrow> Jenkins option \<Rightarrow> Jenkins option" where
  "persisted [] stored = stored"
| "persisted (ClientUpdate j None # tr) stored = persisted tr (Some j)"
| "persisted (a # tr) stored = persisted tr stored"

text \<open>The objects the seed-job runner was called with, in order.\<close>

fun seedJobCalls :: "action list \<Rightarrow> Jenkins list" where
  "seedJobCalls [] = []"
| "seedJobCalls (CallEnsureSeedJobs j # tr) = j # seedJobCalls tr"
| "seedJobCalls (a # tr) = seedJobCalls tr"

text \<open>The secrets read, in order, as (namespace, name).\<close>

fun secretReads :: "action list \<Rightarrow> (string \<times> string) list" where
  "secretReads [] = []"
| "secretReads (SecretGet ns n # tr) = (ns, n) # secretReads tr"
| "secretReads (a # tr) = secretReads tr"

text \<open>The actions a validation may take: log lines and reads of secrets.\<close>

fun validation_action :: "action \<Rightarrow> bool" where
  "validation_action (Log l m) = True"
| "validation_action (SecretGet ns n) = True"
| "validation_action a = False"

section \<open>A concrete environment\<close>

text \<open>
  An object, a request and collaborators on which every step succeeds at once; the
  examples below vary single fields of it.
\<close>

definition example_jenkins :: Jenkins where
  "example_jenkins =
     \<lparr>Namespace = ''default'', Name = ''example'',
      Spec = \<lparr>Master = \<lparr>Image = ''jenkins/jenkins:lts'',
                       OperatorPlugins = [(''kubernetes:1.13.8'', [])],
                       Plugins = [(''simple-theme-plugin:0.5.1'', [])],
                       Resources = defaultResources\<rparr>,
              SeedJobs = [\<lparr>ID = ''jenkins-operator'',
                          RepositoryURL = ''https://github.com/jenkinsci/kubernetes-operator.git'',
                          PrivateKey = None\<rparr>]\<rparr>,
      Status = \<lparr>BaseConfigurationCompletedTime = None,
                UserConfigurationCompletedTime = None,
                ProvisionStartTime = 0\<rparr>\<rparr>"

definition example_request :: Request where
  "example_request = \<lparr>ReqNamespace = ''default'', ReqName = ''example''\<rparr>"

definition example_env :: env where
  "example_env =
     \<lparr>client_Get = (\<lambda>r. Inr example_jenkins),
      client_Update = (\<lambda>j. None),
      secret_Get = (\<lambda>ns n. Inl (Failure ''not found'')),
      configMap_Get = (\<lambda>ns n. Inr []),
      IsNotFound = (\<lambda>e. e = Failure ''not found''),
      IsConflict = (\<lambda>e. e = Failure ''conflict''),
      DefaultJenkinsMasterImage = ''jenkins/jenkins:lts'',
      BasePlugins = [(''kubernetes:1.13.8'', [])],
      plugins_New = (\<lambda>s. if CHR '':'' \<in> set s
                           then Inr \<lparr>PluginName = takeWhile (\<lambda>c. c \<noteq> CHR '':'') s,
                                     PluginVersion = tl (dropWhile (\<lambda>c. c \<noteq> CHR '':'') s)\<rparr>
                           else Inl (Failure ''invalid plugin format'')),
      VerifyDependencies = (\<lambda>g. True),
      dockerImageRegexp_MatchString = (\<lambda>s. False),
      ReferenceRegexp_MatchString = (\<lambda>s. s \<noteq> []),
      base_Reconcile = (\<lambda>j. (j, Result_zero, None)),
      EnsureSeedJobs = (\<lambda>j. (j, True, None)),
      ConfigureGroovyJob = None,
      GetUserConfigurationConfigMapName = (\<lambda>j. ''jenkins-operator-user-configuration-'' @ Name j),
      EnsureGroovyJob = (\<lambda>d j. (j, True, None)),
      pem_Decode = (\<lambda>s. None),
      ParsePKCS1PrivateKey = (\<lambda>b. Inl (Failure ''not a PKCS1 key'')),
      rsa_Validate = (\<lambda>k. None),
      Now_base = 100,
      Now_user = 200,
      log_Debug = False\<rparr>"

text \<open>The same pass with the stamped object and a seed-job build that failed recoverably.\<close>

definition example_stamped :: Jenkins where
  "example_stamped = set_BaseConfigurationCompletedTime 100 example_jenkins"

definition env_recoverable :: env where
  "env_recoverable = example_env\<lparr>EnsureSeedJobs := (\<lambda>j. (j, False, Some ErrorBuildFailed))\<rparr>"

text \<open>
  A seed-job build that failed unrecoverably, with the scripted configuration still
  running, and one with a scripted configuration that cannot be set up.
\<close>

definition env_unrecoverable_pending :: env where
  "env_unrecoverable_pending =
     example_env\<lparr>EnsureSeedJobs := (\<lambda>j. (j, False, Some ErrorUnrecoverableBuildFailed)),
                 EnsureGroovyJob := (\<lambda>d j. (j, False, None))\<rparr>"

definition env_unrecoverable_broken :: env where
  "env_unrecoverable_broken =
     example_env\<lparr>EnsureSeedJobs := (\<lambda>j. (j, False, Some ErrorUnrecoverableBuildFailed)),
                 ConfigureGroovyJob := Some (Failure ''groovy job not configured'')\<rparr>"


text \<open>A base provisioner that meets a conflict, and an API server that refuses every write.\<close>

definition env_conflict :: env where
  "env_conflict =
     example_env\<lparr>base_Reconcile := (\<lambda>j. (j, Result_zero, Some (Failure ''conflict'')))\<rparr>"


section \<open>Properties of traces\<close>

lemma phases_append: "phases (a @ b) = phases a @ phases b"
  by (induction a rule: phases.induct) simp_all
lemma events_append: "events (a @ b) = events a @ events b"
  by (induction a rule: events.induct) simp_all
lemma logs_append: "logs (a @ b) = logs a @ logs b"
  by (induction a rule: logs.induct) simp_all
lemma seedJobCalls_append: "seedJobCalls (a @ b) = seedJobCalls a @ seedJobCalls b"
  by (induction a rule: seedJobCalls.induct) simp_all
lemma secretReads_append: "secretReads (a @ b) = secretReads a @ secretReads b"
  by (induction a rule: secretReads.induct) simp_all
lemma persisted_append: "persisted (a @ b) s = persisted b (persisted a s)"
  by (induction a s rule: persisted.induct) simp_all

lemma validation_phases: "list_all validation_action tr \<Longrightarrow> phases tr = []"
  by (induction tr rule: phases.induct) simp_all
lemma validation_events: "list_all validation_action tr \<Longrightarrow> events tr = []"
  by (induction tr rule: events.induct) simp_all
lemma validation_seedJobCalls: "list_all validation_action tr \<Longrightarrow> seedJobCalls tr = []"
  by (induction tr rule: seedJobCalls.induct) simp_all
lemma validation_persisted: "list_all validation_action tr \<Longrightarrow> persisted tr s = s"
  by (induction tr s rule: persisted.induct) simp_all

lemma validatePlugins_dependents_trace:
  "list_all validation_action tr \<Longrightarrow>
   list_all validation_action (snd (snd (validatePlugins_dependents env r ns (v, ds, tr))))"
  by (induction ns arbitrary: v ds tr) (simp_all split: sum.splits)

lemma validatePlugins_roots_trace:
  "list_all validation_action tr \<Longrightarrow>
   list_all validation_action (snd (snd (validatePlugins_roots env m (v, al, tr))))"
proof (induction m arbitrary: v al tr)
  case Nil
  then show ?case by simp
next
  case (Cons e m)
  obtain r ns where e: "e = (r, ns)" by (cases e)
  define v1 where "v1 = (case plugins_New env r of Inl err \<Rightarrow> False | Inr p \<Rightarrow> v)"
  define tr1 where "tr1 = (case plugins_New env r of
      Inl err \<Rightarrow> tr @ [Log VWarn (Sprintf (''Invalid root plugin name '%s'' @ [CHR 0x27]) [ArgS r])]
    | Inr p \<Rightarrow> tr)"
  obtain v2 ds tr2 where d: "validatePlugins_dependents env r ns (v1, [], tr1) = (v2, ds, tr2)"
    by (cases "validatePlugins_dependents env r ns (v1, [], tr1)")
  have "list_all validation_action tr1"
    using Cons.prems by (simp add: tr1_def split: sum.splits)
  then have t2: "list_all validation_action tr2"
    using validatePlugins_dependents_trace[of tr1 env r ns v1 "[]"] d by simp
  show ?case
  proof (cases "plugins_New env r")
    case (Inl err)
    then show ?thesis
      using d Cons.IH[OF t2] by (simp add: e v1_def tr1_def)
  next
    case (Inr p)
    then show ?thesis
      using d Cons.IH[OF t2] by (simp add: e v1_def tr1_def)
  qed
qed

lemma validatePlugins_maps_trace:
  "list_all validation_action (snd (snd acc)) \<Longrightarrow>
   list_all validation_action (snd (snd (validatePlugins_maps env ms acc)))"
proof (induction ms arbitrary: acc)
  case Nil
  then show ?case by simp
next
  case (Cons m ms)
  obtain v al tr where acc: "acc = (v, al, tr)" by (cases acc)
  show ?case
    using Cons.prems validatePlugins_roots_trace[of tr env m v al]
    by (simp add: acc Cons.IH)
qed

lemma validatePlugins_trace: "list_all validation_action (snd (validatePlugins env ms))"
  using validatePlugins_maps_trace[of "(True, [], [])" env ms]
  by (auto simp: validatePlugins_def split: prod.splits)

lemma base_Validate_trace: "list_all validation_action (snd (base_Validate env j))"
  using validatePlugins_trace[of env "[OperatorPlugins (Master (Spec j)), Plugins (Master (Spec j))]"]
  by (auto simp: base_Validate_def split: prod.splits)

lemma base_Validate_err: "snd (fst (base_Validate env j)) = None"
  by (simp add: base_Validate_def split: prod.splits)

lemma validateSeedJob_key_trace:
  "list_all validation_action (snd (validateSeedJob_key env ref d v))"
  by (simp add: validateSeedJob_key_def Let_def split: option.splits)

lemma validateSeedJob_trace:
  "list_all validation_action (snd (validateSeedJob env ns job v))"
  by (simp add: validateSeedJob_def Let_def case_prod_beta validateSeedJob_key_trace
      split: option.splits sum.splits)

lemma validateSeedJobs_loop_trace:
  "list_all validation_action (snd (validateSeedJobs_loop env ns jobs v))"
proof (induction jobs arbitrary: v)
  case Nil
  then show ?case by simp
next
  case (Cons job jobs)
  show ?case
    using validateSeedJob_trace[of env ns job v]
    by (cases "validateSeedJob env ns job v")
       (simp add: case_prod_beta Cons.IH split: sum.splits)
qed

lemma user_Validate_trace: "list_all validation_action (snd (user_Validate env j))"
  using validateSeedJobs_loop_trace[of env "Namespace j" "SeedJobs (Spec j)" True]
  by (auto simp: user_Validate_def validateSeedJobs_def split: prod.splits)

lemma ensureSeedJobs_trace: "snd (ensureSeedJobs env j) = [CallEnsureSeedJobs j]"
  by (simp add: ensureSeedJobs_def case_prod_beta)

lemma ensureUserConfiguration_calls:
  "seedJobCalls (snd (ensureUserConfiguration env j)) = [] \<and>
   phases (snd (ensureUserConfiguration env j)) = [] \<and>
   events (snd (ensureUserConfiguration env j)) = [] \<and>
   persisted (snd (ensureUserConfiguration env j)) s = s"
  by (simp add: ensureUserConfiguration_def case_prod_beta Let_def split: option.splits sum.splits)

lemma reconcile_baseCompleted_calls:
  "seedJobCalls (snd (reconcile_baseCompleted env j)) = [] \<and>
   phases (snd (reconcile_baseCompleted env j)) = []"
  by (simp add: reconcile_baseCompleted_def Let_def split: option.splits)

lemma reconcile_userCompleted_calls:
  "seedJobCalls (snd (reconcile_userCompleted env j)) = [] \<and>
   phases (snd (reconcile_userCompleted env j)) = []"
  by (simp add: reconcile_userCompleted_def Let_def split: option.splits)

lemma user_Reconcile_calls:
  "seedJobCalls (snd (user_Reconcile env j)) = [j] \<and>
   phases (snd (user_Reconcile env j)) = [] \<and>
   events (snd (user_Reconcile env j)) = [] \<and>
   persisted (snd (user_Reconcile env j)) s = s"
  by (simp add: user_Reconcile_def case_prod_beta ensureSeedJobs_trace ensureUserConfiguration_calls
      seedJobCalls_append phases_append events_append persisted_append
      split: option.splits)

lemma setDefaults_phases: "phases (snd (setDefaults env j)) = []"
  by (simp add: setDefaults_def Let_def if_distrib[of snd] if_distrib[of phases] phases_append
      split del: if_split cong: if_cong)

lemma setDefaults_seedJobCalls: "seedJobCalls (snd (setDefaults env j)) = []"
  by (simp add: setDefaults_def Let_def if_distrib[of snd] if_distrib[of seedJobCalls]
      seedJobCalls_append split del: if_split cong: if_cong)

lemma setDefaults_events: "events (snd (setDefaults env j)) = []"
  by (simp add: setDefaults_def Let_def if_distrib[of snd] if_distrib[of events] events_append
      split del: if_split cong: if_cong)

section \<open>The claims\<close>

lemma events_validation_tail: "list_all validation_action tr \<Longrightarrow> events (tr @ r) = events r"
  by (simp add: events_append validation_events)

text \<open>
  C10: when the user configuration completes for the first time (user validation passed,
  the user reconcile finished without error or requeue, the user completion time was
  unset and its write succeeded), the one notification of the user configuration has
  normal severity and carries the reason code \<open>BaseConfigurationFailure\<close>, the text the
  constant \<open>reasonUserConfigurationSuccess\<close> is bound to.
\<close>

theorem user_success_reason:
  assumes "user_Validate env jenkins = ((True, None), tr1)"
    and "user_Reconcile env jenkins = ((j1, result, None), tr2)"
    and "\<not> Requeue result"
    and "UserConfigurationCompletedTime (Status j1) = None"
    and "client_Update env (set_UserConfigurationCompletedTime (Now_user env) j1) = None"
  shows "reasonUserConfigurationSuccess = ''BaseConfigurationFailure'' \<and>
         events (snd (reconcile_userConfiguration env jenkins)) =
           [(TypeNormal, ''BaseConfigurationFailure'', ''User configuration completed'')]"
proof -
  have e1: "events tr1 = []"
    using user_Validate_trace[of env jenkins] assms(1) by (simp add: validation_events)
  have e2: "events tr2 = []"
    using user_Reconcile_calls[of env jenkins] assms(2) by simp
  show ?thesis
    using assms e1 e2
    by (simp add: reconcile_userConfiguration_def reconcile_userCompleted_def Let_def
        reasonUserConfigurationSuccess_def events_append)
qed

lemma example_user_Validate: "user_Validate example_env example_jenkins = ((True, None), [])"
  by (simp add: user_Validate_def validateSeedJobs_def validateSeedJob_def example_jenkins_def
      example_env_def Let_def)

lemma example_user_Reconcile:
  "user_Reconcile example_env example_jenkins =
     ((example_jenkins, Result_zero, None),
      [CallEnsureSeedJobs example_jenkins, CallConfigureGroovyJob,
       ConfigMapGet ''default'' ''jenkins-operator-user-configuration-example'',
       CallEnsureGroovyJob [] example_jenkins])"
  by (simp add: user_Reconcile_def ensureSeedJobs_def ensureUserConfiguration_def
      example_env_def Result_zero_def Let_def) (simp add: example_jenkins_def)

theorem user_success_reason_witness:
  "events (snd (reconcile_userConfiguration example_env example_jenkins)) =
     [(TypeNormal, ''BaseConfigurationFailure'', ''User configuration completed'')]"
  using user_success_reason[OF example_user_Validate example_user_Reconcile]
  by (simp add: Result_zero_def) (simp add: example_jenkins_def example_env_def)

lemma reconcile_userConfiguration_seedJobCalls:
  "seedJobCalls (snd (reconcile_userConfiguration env jenkins)) =
     (if fst (user_Validate env jenkins) = (True, None) then [jenkins] else [])"
proof -
  have v: "seedJobCalls (snd (user_Validate env jenkins)) = []"
    by (simp add: validation_seedJobCalls user_Validate_trace)
  obtain valid verr tr1 where uv: "user_Validate env jenkins = ((valid, verr), tr1)"
    by (metis surj_pair)
  obtain j1 result err tr2 where ur: "user_Reconcile env jenkins = ((j1, result, err), tr2)"
    by (metis surj_pair)
  have c: "seedJobCalls tr2 = [jenkins]"
    using user_Reconcile_calls[of env jenkins] ur by simp
  show ?thesis
    using v c
    by (simp add: reconcile_userConfiguration_def uv ur seedJobCalls_append
        reconcile_userCompleted_calls case_prod_beta split: option.splits)
qed

lemma reconcile_userConfiguration_result:
  assumes "fst (user_Validate env jenkins) = (True, None)"
      and "user_Reconcile env jenkins = ((j1, result, err), tr2)"
  shows "fst (reconcile_userConfiguration env jenkins) =
           (case err of
              Some e \<Rightarrow> (Result_zero, Some e)
            | None \<Rightarrow> if Requeue result then (result, None)
                      else (Result_zero, snd (fst (reconcile_userCompleted env j1))))"
    and "snd (reconcile_userConfiguration env jenkins) =
           Enter ValidateUser # snd (user_Validate env jenkins) @ Enter ProvisionUser # tr2 @
           (case err of
              Some e \<Rightarrow> []
            | None \<Rightarrow> if Requeue result then [] else snd (reconcile_userCompleted env j1))"
  using assms
  by (cases "user_Validate env jenkins";
      simp add: reconcile_userConfiguration_def case_prod_beta split: option.splits)+

lemma reconcile_baseConfiguration_reaches_user:
  assumes "j \<in> set (seedJobCalls (snd (reconcile_baseConfiguration env jenkins)))"
  shows "\<exists>pre. snd (reconcile_baseConfiguration env jenkins) =
                 pre @ snd (reconcile_userConfiguration env j) \<and>
               fst (reconcile_baseConfiguration env jenkins) =
                 fst (reconcile_userConfiguration env j) \<and>
               fst (user_Validate env j) = (True, None)"
proof -
  have v: "seedJobCalls (snd (base_Validate env jenkins)) = []"
    by (simp add: validation_seedJobCalls base_Validate_trace)
  obtain valid verr tr1 where bv: "base_Validate env jenkins = ((valid, verr), tr1)"
    by (metis surj_pair)
  obtain j1 result err where br: "base_Reconcile env jenkins = (j1, result, err)"
    by (metis surj_pair)
  obtain j2 berr tr3 where bc: "reconcile_baseCompleted env j1 = ((j2, berr), tr3)"
    by (metis surj_pair)
  have c: "seedJobCalls tr3 = []"
    using reconcile_baseCompleted_calls[of env j1] bc by simp
  have reached: "verr = None \<and> valid \<and> err = None \<and> \<not> Requeue result \<and> berr = None \<and>
                 j \<in> set (seedJobCalls (snd (reconcile_userConfiguration env j2)))"
    using assms v c
    by (simp add: reconcile_baseConfiguration_def bv br bc seedJobCalls_append case_prod_beta
        split: option.splits if_splits)
  then have j: "j = j2" and uv: "fst (user_Validate env j2) = (True, None)"
    by (simp_all add: reconcile_userConfiguration_seedJobCalls split: if_splits)
  show ?thesis
    using reached uv
    by (simp add: reconcile_baseConfiguration_def bv br bc case_prod_beta j)
qed

lemma reconcile_reaches_user:
  assumes "j \<in> set (seedJobCalls (snd (reconcile env request)))"
  shows "\<exists>pre. snd (reconcile env request) = pre @ snd (reconcile_userConfiguration env j) \<and>
               fst (reconcile env request) = fst (reconcile_userConfiguration env j) \<and>
               fst (user_Validate env j) = (True, None)"
proof (cases "client_Get env request")
  case (Inl e)
  then show ?thesis using assms by (simp add: reconcile_def split: if_splits)
next
  case (Inr j0)
  obtain j1 derr tr1 where sd: "setDefaults env j0 = ((j1, derr), tr1)"
    by (metis surj_pair)
  have c: "seedJobCalls tr1 = []"
    using setDefaults_seedJobCalls[of env j0] sd by simp
  have reached: "derr = None \<and> j \<in> set (seedJobCalls (snd (reconcile_baseConfiguration env j1)))"
    using assms c
    by (simp add: reconcile_def Inr sd seedJobCalls_append case_prod_beta split: option.splits)
  then obtain pre where
    "snd (reconcile_baseConfiguration env j1) = pre @ snd (reconcile_userConfiguration env j)"
    "fst (reconcile_baseConfiguration env j1) = fst (reconcile_userConfiguration env j)"
    "fst (user_Validate env j) = (True, None)"
    using reconcile_baseConfiguration_reaches_user by blast
  then show ?thesis
    using reached by (simp add: reconcile_def Inr sd case_prod_beta)
qed

lemma ensureUserConfiguration_starts:
  "\<exists>rest. snd (ensureUserConfiguration env j) = CallConfigureGroovyJob # rest"
  by (simp add: ensureUserConfiguration_def Let_def case_prod_beta split: option.splits sum.splits)

text \<open>
  C1 (as the code has it): in a pass that reaches the seed-job step (the runner is called
  with the object \<open>j\<close>), the runner's outcome decides as follows. Not done without
  error, or the recoverable sentinel: the step returns requeue after 10 seconds and no
  error, the pass ends there, and that is the result of the pass and of the entry point.
  Done without error, or the unrecoverable sentinel: the step returns no requeue and no
  error, and in both cases alike the pass goes on to the scripted configuration, whose
  error or requeue becomes the result of the pass; only if it has neither does the pass
  reach the user completion step and return no requeue. Any other error: returned wrapped
  by the step and by the pass, which the entry point turns into an immediate requeue.
\<close>

theorem seed_job_outcome_decision:
  assumes "j \<in> set (seedJobCalls (snd (reconcile env request)))"
      and "EnsureSeedJobs env j = (j', done, err)"
  shows "(err = None \<and> \<not> done \<longrightarrow>
            snd (fst (ensureSeedJobs env j)) =
              (\<lparr>Requeue = True, RequeueAfter = 10000000000\<rparr>, None) \<and>
            last (snd (reconcile env request)) = CallEnsureSeedJobs j \<and>
            fst (reconcile env request) = (\<lparr>Requeue = True, RequeueAfter = 10000000000\<rparr>, None) \<and>
            fst (Reconcile env request) = (\<lparr>Requeue = True, RequeueAfter = 10000000000\<rparr>, None)) \<and>
         (err = Some ErrorBuildFailed \<longrightarrow>
            snd (fst (ensureSeedJobs env j)) =
              (\<lparr>Requeue = True, RequeueAfter = 10000000000\<rparr>, None) \<and>
            last (snd (reconcile env request)) = CallEnsureSeedJobs j \<and>
            fst (reconcile env request) = (\<lparr>Requeue = True, RequeueAfter = 10000000000\<rparr>, None) \<and>
            fst (Reconcile env request) = (\<lparr>Requeue = True, RequeueAfter = 10000000000\<rparr>, None)) \<and>
         (err = None \<and> done \<or> err = Some ErrorUnrecoverableBuildFailed \<longrightarrow>
            snd (fst (ensureSeedJobs env j)) = (\<lparr>Requeue = False, RequeueAfter = 0\<rparr>, None) \<and>
            CallConfigureGroovyJob \<in> set (snd (reconcile env request)) \<and>
            fst (reconcile env request) =
              (case ensureUserConfiguration env j' of
                 ((j2, result2, err2), tr2) \<Rightarrow>
                   (case err2 of
                      Some e \<Rightarrow> (\<lparr>Requeue = False, RequeueAfter = 0\<rparr>, Some e)
                    | None \<Rightarrow>
                        if Requeue result2 then (result2, None)
                        else (\<lparr>Requeue = False, RequeueAfter = 0\<rparr>,
                              snd (fst (reconcile_userCompleted env j2)))))) \<and>
         (\<forall>e. err = Some e \<and> e \<noteq> ErrorBuildFailed \<and> e \<noteq> ErrorUnrecoverableBuildFailed \<longrightarrow>
            snd (fst (ensureSeedJobs env j)) =
              (\<lparr>Requeue = False, RequeueAfter = 0\<rparr>, Some (WithStack e)) \<and>
            last (snd (reconcile env request)) = CallEnsureSeedJobs j \<and>
            fst (reconcile env request) =
              (\<lparr>Requeue = False, RequeueAfter = 0\<rparr>, Some (WithStack e)) \<and>
            fst (Reconcile env request) = (\<lparr>Requeue = True, RequeueAfter = 0\<rparr>, None))"
proof -
  obtain pre where
    tr: "snd (reconcile env request) = pre @ snd (reconcile_userConfiguration env j)" and
    res: "fst (reconcile env request) = fst (reconcile_userConfiguration env j)" and
    uv: "fst (user_Validate env j) = (True, None)"
    using reconcile_reaches_user[OF assms(1)] by blast
  obtain j1 result uerr tr2 where ur: "user_Reconcile env j = ((j1, result, uerr), tr2)"
    by (metis surj_pair)
  note r = reconcile_userConfiguration_result[OF uv ur]
  have es: "ensureSeedJobs env j =
      ((j', case err of
         Some e \<Rightarrow>
           if e = ErrorBuildFailed then (requeueAfter10s, None)
           else if e = ErrorUnrecoverableBuildFailed then (Result_zero, None)
           else (Result_zero, Some (WithStack e))
       | None \<Rightarrow> if \<not> done then (requeueAfter10s, None) else (Result_zero, None)),
       [CallEnsureSeedJobs j])"
    by (simp add: ensureSeedJobs_def assms(2))
  have ten: "requeueAfter10s = \<lparr>Requeue = True, RequeueAfter = 10000000000\<rparr>"
    by (simp add: requeueAfter10s_def Second_def)
  have Rc: "snd (fst (reconcile env request)) = None \<Longrightarrow>
            fst (Reconcile env request) = fst (reconcile env request)"
    by (cases "reconcile env request") (auto simp: Reconcile_def)
  have Re: "\<And>e. snd (fst (reconcile env request)) = Some e \<Longrightarrow>
            fst (Reconcile env request) = (\<lparr>Requeue = True, RequeueAfter = 0\<rparr>, None)"
    by (cases "reconcile env request") (auto simp: Reconcile_def)
  have stop: "snd (fst (ensureSeedJobs env j)) = (requeueAfter10s, None) \<Longrightarrow>
            fst (reconcile env request) = (requeueAfter10s, None) \<and>
            last (snd (reconcile env request)) = CallEnsureSeedJobs j"
  proof -
    assume a: "snd (fst (ensureSeedJobs env j)) = (requeueAfter10s, None)"
    have e: "ensureSeedJobs env j = ((j', requeueAfter10s, None), [CallEnsureSeedJobs j])"
      using a es by (cases "ensureSeedJobs env j") auto
    have u: "user_Reconcile env j = ((j', requeueAfter10s, None), [CallEnsureSeedJobs j])"
      by (simp add: user_Reconcile_def e requeueAfter10s_def)
    show ?thesis
      using u ur by (simp add: res tr r requeueAfter10s_def)
  qed
  have fail: "\<And>e. snd (fst (ensureSeedJobs env j)) = (Result_zero, Some e) \<Longrightarrow>
            fst (reconcile env request) = (Result_zero, Some e) \<and>
            last (snd (reconcile env request)) = CallEnsureSeedJobs j"
  proof -
    fix e
    assume a: "snd (fst (ensureSeedJobs env j)) = (Result_zero, Some e)"
    have e: "ensureSeedJobs env j = ((j', Result_zero, Some e), [CallEnsureSeedJobs j])"
      using a es by (cases "ensureSeedJobs env j") auto
    have u: "user_Reconcile env j = ((j', Result_zero, Some e), [CallEnsureSeedJobs j])"
      by (simp add: user_Reconcile_def e)
    show "fst (reconcile env request) = (Result_zero, Some e) \<and>
          last (snd (reconcile env request)) = CallEnsureSeedJobs j"
      using u ur by (simp add: res tr r)
  qed
  have go: "snd (fst (ensureSeedJobs env j)) = (Result_zero, None) \<Longrightarrow>
            CallConfigureGroovyJob \<in> set (snd (reconcile env request)) \<and>
            fst (reconcile env request) =
              (case ensureUserConfiguration env j' of
                 ((j2, result2, err2), tr2) \<Rightarrow>
                   (case err2 of
                      Some e \<Rightarrow> (Result_zero, Some e)
                    | None \<Rightarrow>
                        if Requeue result2 then (result2, None)
                        else (Result_zero, snd (fst (reconcile_userCompleted env j2)))))"
  proof -
    assume a: "snd (fst (ensureSeedJobs env j)) = (Result_zero, None)"
    obtain rest where st: "snd (ensureUserConfiguration env j') = CallConfigureGroovyJob # rest"
      using ensureUserConfiguration_starts by blast
    obtain j2 result2 err2 tr3 where
      uc: "ensureUserConfiguration env j' = ((j2, result2, err2), tr3)"
      by (metis surj_pair)
    have e: "ensureSeedJobs env j = ((j', Result_zero, None), [CallEnsureSeedJobs j])"
      using a es by (cases "ensureSeedJobs env j") auto
    have u: "user_Reconcile env j =
        ((j2, (case err2 of Some e \<Rightarrow> Result_zero
               | None \<Rightarrow> if Requeue result2 then result2 else Result_zero), err2),
         CallEnsureSeedJobs j # tr3)"
      by (simp add: user_Reconcile_def e uc Result_zero_def split: option.splits)
    have t3: "CallConfigureGroovyJob \<in> set tr3"
      using st uc by simp
    show ?thesis
      using u ur t3
      by (auto simp: res tr r uc Result_zero_def split: option.splits)
  qed
  have z: "Result_zero = \<lparr>Requeue = False, RequeueAfter = 0\<rparr>"
    by (simp add: Result_zero_def)
  note es' = es[unfolded ten z] and stop' = stop[unfolded ten] and fail' = fail[unfolded z]
    and go' = go[unfolded z]
  have A: "err = None \<and> \<not> done \<or> err = Some ErrorBuildFailed \<Longrightarrow>
      snd (fst (ensureSeedJobs env j)) =
        (\<lparr>Requeue = True, RequeueAfter = 10000000000\<rparr>, None) \<and>
      last (snd (reconcile env request)) = CallEnsureSeedJobs j \<and>
      fst (reconcile env request) = (\<lparr>Requeue = True, RequeueAfter = 10000000000\<rparr>, None) \<and>
      fst (Reconcile env request) = (\<lparr>Requeue = True, RequeueAfter = 10000000000\<rparr>, None)"
  proof -
    assume a: "err = None \<and> \<not> done \<or> err = Some ErrorBuildFailed"
    have s: "snd (fst (ensureSeedJobs env j)) =
        (\<lparr>Requeue = True, RequeueAfter = 10000000000\<rparr>, None)"
      using a by (auto simp: es')
    from stop'[OF s] Rc s show ?thesis by simp
  qed
  have B: "err = None \<and> done \<or> err = Some ErrorUnrecoverableBuildFailed \<Longrightarrow>
      snd (fst (ensureSeedJobs env j)) = (\<lparr>Requeue = False, RequeueAfter = 0\<rparr>, None)"
    by (auto simp: es')
  have C: "\<And>e. err = Some e \<Longrightarrow> e \<noteq> ErrorBuildFailed \<Longrightarrow>
      e \<noteq> ErrorUnrecoverableBuildFailed \<Longrightarrow>
      snd (fst (ensureSeedJobs env j)) =
        (\<lparr>Requeue = False, RequeueAfter = 0\<rparr>, Some (WithStack e)) \<and>
      last (snd (reconcile env request)) = CallEnsureSeedJobs j \<and>
      fst (reconcile env request) =
        (\<lparr>Requeue = False, RequeueAfter = 0\<rparr>, Some (WithStack e)) \<and>
      fst (Reconcile env request) = (\<lparr>Requeue = True, RequeueAfter = 0\<rparr>, None)"
  proof -
    fix e
    assume a: "err = Some e" "e \<noteq> ErrorBuildFailed" "e \<noteq> ErrorUnrecoverableBuildFailed"
    have s: "snd (fst (ensureSeedJobs env j)) =
        (\<lparr>Requeue = False, RequeueAfter = 0\<rparr>, Some (WithStack e))"
      using a by (simp add: es')
    from fail'[OF s] Re[of "WithStack e"] s
    show "snd (fst (ensureSeedJobs env j)) =
        (\<lparr>Requeue = False, RequeueAfter = 0\<rparr>, Some (WithStack e)) \<and>
      last (snd (reconcile env request)) = CallEnsureSeedJobs j \<and>
      fst (reconcile env request) =
        (\<lparr>Requeue = False, RequeueAfter = 0\<rparr>, Some (WithStack e)) \<and>
      fst (Reconcile env request) = (\<lparr>Requeue = True, RequeueAfter = 0\<rparr>, None)"
      by simp
  qed
  show ?thesis
  proof (intro conjI impI allI)
    show "fst (reconcile env request) =
              (case ensureUserConfiguration env j' of
                 ((j2, result2, err2), tr2) \<Rightarrow>
                   (case err2 of
                      Some e \<Rightarrow> (\<lparr>Requeue = False, RequeueAfter = 0\<rparr>, Some e)
                    | None \<Rightarrow>
                        if Requeue result2 then (result2, None)
                        else (\<lparr>Requeue = False, RequeueAfter = 0\<rparr>,
                              snd (fst (reconcile_userCompleted env j2)))))"
      if "err = None \<and> done \<or> err = Some ErrorUnrecoverableBuildFailed"
      using go'[OF B[OF that]] by blast
    show "CallConfigureGroovyJob \<in> set (snd (reconcile env request))"
      if "err = None \<and> done \<or> err = Some ErrorUnrecoverableBuildFailed"
      using go'[OF B[OF that]] by blast
  qed (use A B C in blast)+
qed

lemma env_recoverable_reaches:
  "example_stamped \<in> set (seedJobCalls (snd (reconcile env_recoverable example_request)))"
  by code_simp

lemma env_recoverable_outcome:
  "EnsureSeedJobs env_recoverable example_stamped = (example_stamped, False, Some ErrorBuildFailed)"
  by code_simp

lemma env_unrecoverable_broken_reaches:
  "example_stamped \<in> set (seedJobCalls (snd (reconcile env_unrecoverable_broken example_request)))"
  by code_simp

lemma env_unrecoverable_broken_outcome:
  "EnsureSeedJobs env_unrecoverable_broken example_stamped =
     (example_stamped, False, Some ErrorUnrecoverableBuildFailed)"
  by code_simp

lemma env_unrecoverable_broken_scripted:
  "ensureUserConfiguration env_unrecoverable_broken example_stamped =
     ((example_stamped, Result_zero, Some (Failure ''groovy job not configured'')),
      [CallConfigureGroovyJob])"
  by code_simp

theorem seed_job_outcome_decision_witness:
  "fst (Reconcile env_recoverable example_request) =
     (\<lparr>Requeue = True, RequeueAfter = 10000000000\<rparr>, None) \<and>
   fst (reconcile env_unrecoverable_broken example_request) =
     (\<lparr>Requeue = False, RequeueAfter = 0\<rparr>, Some (Failure ''groovy job not configured''))"
  using seed_job_outcome_decision[OF env_recoverable_reaches env_recoverable_outcome]
        seed_job_outcome_decision[OF env_unrecoverable_broken_reaches
          env_unrecoverable_broken_outcome]
  by (simp add: env_unrecoverable_broken_scripted)

text \<open>
  C1, the claim as written fails for the unrecoverable sentinel: with a scripted
  configuration that is not done yet, the pass that met the unrecoverable build failure
  returns requeue after 10 seconds, and so does the entry point.
\<close>

theorem seed_job_unrecoverable_requeues:
  "example_stamped \<in>
     set (seedJobCalls (snd (reconcile env_unrecoverable_pending example_request))) \<and>
   EnsureSeedJobs env_unrecoverable_pending example_stamped =
     (example_stamped, False, Some ErrorUnrecoverableBuildFailed) \<and>
   fst (reconcile env_unrecoverable_pending example_request) =
     (\<lparr>Requeue = True, RequeueAfter = 10000000000\<rparr>, None) \<and>
   fst (Reconcile env_unrecoverable_pending example_request) =
     (\<lparr>Requeue = True, RequeueAfter = 10000000000\<rparr>, None)"
  by code_simp




text \<open>
  C7 (as the code has it): when the pass returns an error that is a conflict, \<open>Reconcile\<close>
  returns an immediate requeue (\<open>Requeue\<close> set, no delay) and a nil error, and emits no
  notification of its own; it is not silent, though: after the actions of the pass it
  writes the text of the error to the log at warning level.
\<close>

theorem conflict_requeues_and_logs:
  assumes "fst (reconcile env request) = (result, Some e)"
      and "IsConflict env e"
  shows "fst (Reconcile env request) = (\<lparr>Requeue = True, RequeueAfter = 0\<rparr>, None) \<and>
         snd (Reconcile env request) =
           Log VDebug (Str ''Reconciling Jenkins'') # snd (reconcile env request) @
           [Log VWarn (ErrorText e)] \<and>
         events (snd (Reconcile env request)) = events (snd (reconcile env request)) \<and>
         logs (snd (Reconcile env request)) =
           (VDebug, Str ''Reconciling Jenkins'') # logs (snd (reconcile env request)) @
           [(VWarn, ErrorText e)]"
  using assms
  by (cases "reconcile env request") (simp add: Reconcile_def events_append logs_append)

lemma env_conflict_pass:
  "fst (reconcile env_conflict example_request) = (Result_zero, Some (Failure ''conflict''))"
  by code_simp

lemma env_conflict_IsConflict: "IsConflict env_conflict (Failure ''conflict'')"
  by code_simp

lemma env_conflict_events: "events (snd (reconcile env_conflict example_request)) = []"
  by code_simp

theorem conflict_requeues_and_logs_witness:
  "fst (Reconcile env_conflict example_request) = (\<lparr>Requeue = True, RequeueAfter = 0\<rparr>, None) \<and>
   events (snd (Reconcile env_conflict example_request)) = []"
  using conflict_requeues_and_logs[OF env_conflict_pass env_conflict_IsConflict]
  by (simp add: env_conflict_events events_append)

text \<open>
  C7, the claim as written fails: the retry after a conflict is not silent. The base
  provisioner's conflict reaches the log of \<open>Reconcile\<close> as a warning line.
\<close>

theorem conflict_is_logged:
  "snd (fst (reconcile env_conflict example_request)) = Some (Failure ''conflict'') \<and>
   IsConflict env_conflict (Failure ''conflict'') \<and>
   logs (snd (Reconcile env_conflict example_request)) =
     [(VDebug, Str ''Reconciling Jenkins''), (VWarn, ErrorText (Failure ''conflict''))]"
  by code_simp

lemma set_fields:
  "Image (Master (Spec (set_OperatorPlugins v j))) = Image (Master (Spec j))"
  "Image (Master (Spec (set_Plugins w j))) = Image (Master (Spec j))"
  "Image (Master (Spec (set_Resources r j))) = Image (Master (Spec j))"
  "Image (Master (Spec (set_Image i j))) = i"
  by (simp_all add: set_OperatorPlugins_def set_Plugins_def set_Resources_def set_Image_def)

lemma setDefaults_cases:
  obtains (unchanged) J lg where
      "setDefaults env j = ((J, None), lg)"
      "list_all validation_action lg"
      "Image (Master (Spec j)) \<noteq> ''''"
      "Image (Master (Spec J)) = Image (Master (Spec j))"
  | (written) J lg where
      "setDefaults env j =
         ((J, WithStack_opt (client_Update env J)), lg @ [ClientUpdate J (client_Update env J)])"
      "list_all validation_action lg"
      "Image (Master (Spec J)) =
         (if Image (Master (Spec j)) = '''' then DefaultJenkinsMasterImage env
          else Image (Master (Spec j)))"
proof -
  define c1 where "c1 = (length (Image (Master (Spec j))) = 0)"
  define j1 where "j1 = (if c1 then set_Image (DefaultJenkinsMasterImage env) j else j)"
  define c2 where "c2 = (length (OperatorPlugins (Master (Spec j1))) = 0)"
  define j2 where "j2 = (if c2 then set_OperatorPlugins (BasePlugins env) j1 else j1)"
  define c3 where "c3 = (length (Plugins (Master (Spec j2))) = 0)"
  define j3 where "j3 = (if c3 then set_Plugins [(''simple-theme-plugin:0.5.1'', [])] j2 else j2)"
  define c4 where "c4 =
    (\<not> (map_of (Limits (Resources (Master (Spec j3)))) ResourceCPU \<noteq> None) \<or>
     \<not> (map_of (Limits (Resources (Master (Spec j3)))) ResourceMemory \<noteq> None) \<or>
     \<not> (map_of (Requests (Resources (Master (Spec j3)))) ResourceCPU \<noteq> None) \<or>
     \<not> (map_of (Requests (Resources (Master (Spec j3)))) ResourceMemory \<noteq> None))"
  define j4 where "j4 = (if c4 then set_Resources defaultResources j3 else j3)"
  define lg where "lg =
    (if c1 then [Log VInfo (Str (''Setting default Jenkins master image: '' @
                                 DefaultJenkinsMasterImage env))] else []) @
    (if c2 then [Log VInfo (Str ''Setting default base plugins'')] else []) @
    (if c4 then [Log VInfo (Str ''Setting default Jenkins master pod resource requirements'')]
     else [])"
  have sd: "setDefaults env j =
      (if c1 \<or> c2 \<or> c3 \<or> c4
       then ((j4, WithStack_opt (client_Update env j4)),
             lg @ [ClientUpdate j4 (client_Update env j4)])
       else ((j4, None), lg))"
    unfolding setDefaults_def Let_def c1_def j1_def c2_def j2_def c3_def j3_def c4_def j4_def
      lg_def
    by (rule refl)
  have l: "list_all validation_action lg"
    by (simp add: lg_def)
  have i: "Image (Master (Spec j4)) =
      (if c1 then DefaultJenkinsMasterImage env else Image (Master (Spec j)))"
    by (simp add: j4_def j3_def j2_def j1_def set_fields)
  have c: "c1 = (Image (Master (Spec j)) = '''')"
    by (simp add: c1_def)
  show thesis
  proof (cases "c1 \<or> c2 \<or> c3 \<or> c4")
    case True
    show thesis
      by (rule written[of j4 lg]) (use True in \<open>simp_all add: sd l i c\<close>)
  next
    case False
    show thesis
      by (rule unchanged[of j4 lg]) (use False in \<open>simp_all add: sd l i c\<close>)
  qed
qed

lemma setDefaults_unset_image:
  assumes "Image (Master (Spec j)) = ''''"
  obtains J lg where
    "setDefaults env j =
       ((J, WithStack_opt (client_Update env J)), lg @ [ClientUpdate J (client_Update env J)])"
    "list_all validation_action lg"
    "Image (Master (Spec J)) = DefaultJenkinsMasterImage env"
  using assms by (cases env j rule: setDefaults_cases) simp_all













end
